theory Spec2Isabelle
  imports Main "HOL-Library.Word"
begin

section \<open>Values shared by the whole model\<close>

text \<open>
  A shallow embedding of \<^verbatim>\<open>paramiko/rsakey.py\<close>.  Python byte strings are lists of
  8-bit words, Python integers are \<^typ>\<open>int\<close>, and every \<^verbatim>\<open>raise\<close> of the source is a
  value \<open>Inl x\<close> of a sum type.  A text string is represented by its UTF-8 bytes, one
  \<^typ>\<open>char\<close> per byte.
\<close>

type_synonym bytes = "8 word list"

datatype exn =
    SSHException string
  | InvalidSignature
  | ValueError string
  | TypeError string
  | UnsupportedAlgorithm string
  | AttributeError string
  | StructError
  | AssertionError

text \<open>The arguments \<^verbatim>\<open>padding.PKCS1v15()\<close> and \<^verbatim>\<open>hashes.SHA1()\<close> are two of several
  choices the library offers.\<close>

datatype padding = PKCS1v15 | PSS | OAEP

datatype hash_algorithm = SHA1 | SHA256 | SHA512

section \<open>The wire codec (\<^verbatim>\<open>paramiko.message.Message\<close>)\<close>

text \<open>
  Modelled from the spec: the class \<^verbatim>\<open>Message\<close> (module \<^verbatim>\<open>paramiko.message\<close>) and the
  integer helpers behind \<^verbatim>\<open>add_mpint\<close>/\<^verbatim>\<open>get_mpint\<close> are missing from the sources.
  The spec describes a structured byte buffer with ordered append and read of typed
  fields; a string is a 4-byte big-endian length followed by that many bytes; an mpint
  is a length-prefixed, big-endian, signed (two's complement) integer of minimal
  length, so that a leading zero byte appears exactly when the most significant bit
  would otherwise read as a sign; a field whose bytes are not all there is rejected
  with the protocol error.
\<close>

definition encode_text :: "string \<Rightarrow> bytes" where
  "encode_text s = map (\<lambda>c. of_nat (of_char c)) s"

definition decode_text :: "bytes \<Rightarrow> string" where
  "decode_text bs = map (\<lambda>b. char_of (unat b)) bs"

definition pack_u32 :: "nat \<Rightarrow> exn + bytes" where
  "pack_u32 k =
     (if k < 2 ^ 32
      then Inr [of_nat (k div 16777216), of_nat (k div 65536), of_nat (k div 256), of_nat k]
      else Inl StructError)"

definition unpack_u32 :: "bytes \<Rightarrow> nat" where
  "unpack_u32 bs = foldl (\<lambda>a b. a * 256 + unat b) 0 bs"

function deflate_long :: "int \<Rightarrow> bytes" where
  "deflate_long i =
     (if - 128 \<le> i \<and> i < 128 then [word_of_int i]
      else deflate_long (i div 256) @ [word_of_int i])"
  by pat_completeness auto
termination
  by (relation "measure (\<lambda>i. nat \<bar>i\<bar>)") auto

declare deflate_long.simps [simp del]

fun be_value :: "int \<Rightarrow> bytes \<Rightarrow> int" where
  "be_value acc [] = acc"
| "be_value acc (b # bs) = be_value (acc * 256 + uint b) bs"

definition inflate_long :: "bytes \<Rightarrow> int" where
  "inflate_long bs = (case bs of [] \<Rightarrow> 0 | b # rest \<Rightarrow> be_value (sint b) rest)"

record message =
  packet :: bytes
  idx :: nat

definition Message :: "bytes \<Rightarrow> message" where
  "Message content = \<lparr>packet = content, idx = 0\<rparr>"

definition message_asbytes :: "message \<Rightarrow> bytes" where
  "message_asbytes m = packet m"

definition add_string :: "message \<Rightarrow> bytes \<Rightarrow> exn + message" where
  "add_string m s =
     (case pack_u32 (length s) of
        Inl x \<Rightarrow> Inl x
      | Inr l \<Rightarrow> Inr (m\<lparr>packet := packet m @ l @ s\<rparr>))"

definition add_mpint :: "message \<Rightarrow> int \<Rightarrow> exn + message" where
  "add_mpint m i = add_string m (deflate_long i)"

definition get_bytes :: "message \<Rightarrow> nat \<Rightarrow> exn + (bytes \<times> message)" where
  "get_bytes m k =
     (if idx m + k \<le> length (packet m)
      then Inr (take k (drop (idx m) (packet m)), m\<lparr>idx := idx m + k\<rparr>)
      else Inl (SSHException ''Invalid key''))"

definition get_binary :: "message \<Rightarrow> exn + (bytes \<times> message)" where
  "get_binary m =
     (case get_bytes m 4 of
        Inl x \<Rightarrow> Inl x
      | Inr (l, m1) \<Rightarrow> get_bytes m1 (unpack_u32 l))"

definition get_text :: "message \<Rightarrow> exn + (string \<times> message)" where
  "get_text m =
     (case get_binary m of
        Inl x \<Rightarrow> Inl x
      | Inr (s, m1) \<Rightarrow> Inr (decode_text s, m1))"

definition get_mpint :: "message \<Rightarrow> exn + (int \<times> message)" where
  "get_mpint m =
     (case get_binary m of
        Inl x \<Rightarrow> Inl x
      | Inr (s, m1) \<Rightarrow> Inr (inflate_long s, m1))"

section \<open>The crypto provider (\<^verbatim>\<open>cryptography\<close>) and the key-file reader\<close>

text \<open>
  The key objects of the library.  A public key holds \<open>(e, n)\<close>; a private key holds
  the private numbers, of which the public numbers are a part.
\<close>

record rsa_public_numbers =
  rsa_e :: int
  rsa_n :: int

record rsa_private_numbers =
  priv_p :: int
  priv_q :: int
  priv_d :: int
  priv_dmp1 :: int
  priv_dmq1 :: int
  priv_iqmp :: int
  priv_public_numbers :: rsa_public_numbers

datatype key_handle =
    RSAPublicKey rsa_public_numbers
  | RSAPrivateKey rsa_private_numbers

text \<open>What \<^verbatim>\<open>load_der_private_key\<close> may hand back: the container decides the key type.\<close>

datatype loaded_key =
    LoadedRSAPrivateKey rsa_private_numbers
  | LoadedDSAPrivateKey
  | LoadedECPrivateKey

text \<open>
  The library is outside the repository, so what it computes is a parameter of the
  model: which public numbers it refuses, which key it generates, what a container
  parses to, which of its two call shapes a key object offers (\<^verbatim>\<open>hasattr(key, "sign")\<close>,
  \<^verbatim>\<open>hasattr(key, "verify")\<close>) and what signing and verifying return or raise.  The
  legacy shape \<^verbatim>\<open>signer(...)\<close>, \<^verbatim>\<open>update(data)\<close>, \<^verbatim>\<open>finalize()\<close> is one field, as is
  \<^verbatim>\<open>verifier(...)\<close>, \<^verbatim>\<open>update(data)\<close>, \<^verbatim>\<open>verify()\<close>.  A verification that returns
  normally is \<open>None\<close>.
\<close>

record provider =
  check_public_numbers :: "rsa_public_numbers \<Rightarrow> exn option"
  generate_private_key :: "int \<Rightarrow> int \<Rightarrow> exn + rsa_private_numbers"
  load_der_private_key :: "bytes \<Rightarrow> string option \<Rightarrow> exn + loaded_key"
  hasattr_sign :: "key_handle \<Rightarrow> bool"
  key_sign :: "key_handle \<Rightarrow> bytes \<Rightarrow> padding \<Rightarrow> hash_algorithm \<Rightarrow> exn + bytes"
  key_signer :: "key_handle \<Rightarrow> padding \<Rightarrow> hash_algorithm \<Rightarrow> bytes \<Rightarrow> exn + bytes"
  hasattr_verify :: "key_handle \<Rightarrow> bool"
  key_verify :: "key_handle \<Rightarrow> bytes \<Rightarrow> bytes \<Rightarrow> padding \<Rightarrow> hash_algorithm \<Rightarrow> exn option"
  key_verifier :: "key_handle \<Rightarrow> bytes \<Rightarrow> padding \<Rightarrow> hash_algorithm \<Rightarrow> bytes \<Rightarrow> exn option"

text \<open>\<^verbatim>\<open>rsa.RSAPublicNumbers(e, n).public_key(backend)\<close>: the numbers are checked, and
  the object built from them is a public key.\<close>

definition public_key_of_numbers :: "provider \<Rightarrow> rsa_public_numbers \<Rightarrow> exn + key_handle" where
  "public_key_of_numbers prov pn =
     (case check_public_numbers prov pn of
        Some x \<Rightarrow> Inl x
      | None \<Rightarrow> Inr (RSAPublicKey pn))"

text \<open>\<^verbatim>\<open>key.public_key()\<close> and \<^verbatim>\<open>key.key_size\<close> (the bit length of the modulus).\<close>

definition handle_public_numbers :: "key_handle \<Rightarrow> rsa_public_numbers" where
  "handle_public_numbers h =
     (case h of RSAPrivateKey pn \<Rightarrow> priv_public_numbers pn | RSAPublicKey pub \<Rightarrow> pub)"

function bit_length :: "nat \<Rightarrow> nat" where
  "bit_length k = (if k = 0 then 0 else Suc (bit_length (k div 2)))"
  by pat_completeness auto
termination
  by (relation "measure (\<lambda>k. k)") auto

declare bit_length.simps [simp del]

definition key_size :: "key_handle \<Rightarrow> nat" where
  "key_size h = bit_length (nat \<bar>rsa_n (handle_public_numbers h)\<bar>)"

text \<open>
  Modelled from the spec: \<^verbatim>\<open>PKey._read_private_key\<close> and
  \<^verbatim>\<open>PKey._read_private_key_file\<close> (module \<^verbatim>\<open>paramiko.pkey\<close>) are missing from the
  sources.  The spec gives their contract, \<^verbatim>\<open>read_private_key(tag, source, password) -> bytes\<close>,
  so they are parameters: the tag, the stream (or the path) and the password go in,
  the container bytes or an error come out.
\<close>

record 'f pkey_io =
  read_private_key :: "string \<Rightarrow> 'f \<Rightarrow> string option \<Rightarrow> exn + bytes"
  read_private_key_file :: "string \<Rightarrow> string \<Rightarrow> string option \<Rightarrow> exn + bytes"


section \<open>The class \<^verbatim>\<open>RSAKey\<close>\<close>

record rsakey =
  key :: key_handle

text \<open>\<^verbatim>\<open>get_name\<close> (lines 105-106).\<close>

definition get_name :: "rsakey \<Rightarrow> string" where
  "get_name self = ''ssh-rsa''"

text \<open>
  \<^verbatim>\<open>_decode_key\<close> (lines 198-207), \<^verbatim>\<open>_from_private_key_file\<close> (lines 190-192) and
  \<^verbatim>\<open>_from_private_key\<close> (lines 194-196), without the leading underscore.  Only
  \<^verbatim>\<open>ValueError\<close> is caught; the \<^verbatim>\<open>assert\<close> fails on any key that is not an RSA private key.
\<close>

definition decode_key :: "provider \<Rightarrow> bytes \<Rightarrow> exn + rsakey" where
  "decode_key prov content =
     (case load_der_private_key prov content None of
        Inl (ValueError s) \<Rightarrow> Inl (SSHException s)
      | Inl x \<Rightarrow> Inl x
      | Inr (LoadedRSAPrivateKey pn) \<Rightarrow> Inr \<lparr>key = RSAPrivateKey pn\<rparr>
      | Inr _ \<Rightarrow> Inl AssertionError)"

definition from_private_key_file ::
  "provider \<Rightarrow> 'f pkey_io \<Rightarrow> string \<Rightarrow> string option \<Rightarrow> exn + rsakey" where
  "from_private_key_file prov io filename password =
     (case read_private_key_file io ''RSA'' filename password of
        Inl x \<Rightarrow> Inl x
      | Inr content \<Rightarrow> decode_key prov content)"

definition from_private_key ::
  "provider \<Rightarrow> 'f pkey_io \<Rightarrow> 'f \<Rightarrow> string option \<Rightarrow> exn + rsakey" where
  "from_private_key prov io file_obj password =
     (case read_private_key io ''RSA'' file_obj password of
        Inl x \<Rightarrow> Inl x
      | Inr content \<Rightarrow> decode_key prov content)"

text \<open>
  \<^verbatim>\<open>__init__\<close> (lines 40-67).  The arguments keep the order of the source: \<^verbatim>\<open>msg\<close>, \<^verbatim>\<open>data\<close>,
  \<^verbatim>\<open>filename\<close>, \<^verbatim>\<open>password\<close>, \<^verbatim>\<open>key\<close>, \<^verbatim>\<open>file_obj\<close>; an argument left at \<^verbatim>\<open>None\<close> is
  \<open>None\<close>.  Reading moves the cursor of the message, which the caller can see, so the
  result is the object together with the final state of the local \<^verbatim>\<open>msg\<close>.
\<close>

definition RSAKey_init ::
  "provider \<Rightarrow> 'f pkey_io \<Rightarrow> message option \<Rightarrow> bytes option \<Rightarrow> string option \<Rightarrow>
   string option \<Rightarrow> key_handle option \<Rightarrow> 'f option \<Rightarrow> exn + (rsakey \<times> message option)" where
  "RSAKey_init prov io msg content filename password key_arg file_obj =
     (case file_obj of
        Some f \<Rightarrow> map_sum id (\<lambda>self. (self, msg)) (from_private_key prov io f password)
      | None \<Rightarrow>
     (case filename of
        Some name \<Rightarrow> map_sum id (\<lambda>self. (self, msg)) (from_private_key_file prov io name password)
      | None \<Rightarrow>
     (let msg1 = (case (msg, content) of (None, Some d) \<Rightarrow> Some (Message d) | _ \<Rightarrow> msg) in
      case key_arg of
        Some h \<Rightarrow> Inr (\<lparr>key = h\<rparr>, msg1)
      | None \<Rightarrow>
     (case msg1 of
        None \<Rightarrow> Inl (SSHException ''Key object may not be empty'')
      | Some m \<Rightarrow>
     (case get_text m of
        Inl x \<Rightarrow> Inl x
      | Inr (t, m1) \<Rightarrow>
          if t \<noteq> ''ssh-rsa'' then Inl (SSHException ''Invalid key'')
          else
     (case get_mpint m1 of
        Inl x \<Rightarrow> Inl x
      | Inr (e, m2) \<Rightarrow>
     (case get_mpint m2 of
        Inl x \<Rightarrow> Inl x
      | Inr (n, m3) \<Rightarrow>
     (case public_key_of_numbers prov \<lparr>rsa_e = e, rsa_n = n\<rparr> of
        Inl x \<Rightarrow> Inl x
      | Inr h \<Rightarrow> Inr (\<lparr>key = h\<rparr>, Some m3)))))))))"

text \<open>The value of the expression \<^verbatim>\<open>RSAKey(...)\<close>: the object alone.\<close>

definition RSAKey ::
  "provider \<Rightarrow> 'f pkey_io \<Rightarrow> message option \<Rightarrow> bytes option \<Rightarrow> string option \<Rightarrow>
   string option \<Rightarrow> key_handle option \<Rightarrow> 'f option \<Rightarrow> exn + rsakey" where
  "RSAKey prov io msg content filename password key_arg file_obj =
     map_sum id fst (RSAKey_init prov io msg content filename password key_arg file_obj)"

text \<open>The properties \<^verbatim>\<open>size\<close> (lines 69-71) and \<^verbatim>\<open>public_numbers\<close> (lines 73-78), and
  \<^verbatim>\<open>asbytes\<close> (lines 80-85).\<close>

definition rsakey_size :: "rsakey \<Rightarrow> nat" where
  "rsakey_size self = key_size (key self)"

definition public_numbers :: "rsakey \<Rightarrow> rsa_public_numbers" where
  "public_numbers self =
     (case key self of
        RSAPrivateKey pn \<Rightarrow> priv_public_numbers pn
      | RSAPublicKey pub \<Rightarrow> pub)"

definition asbytes :: "rsakey \<Rightarrow> exn + bytes" where
  "asbytes self =
     (case add_string (Message []) (encode_text ''ssh-rsa'') of
        Inl x \<Rightarrow> Inl x
      | Inr m1 \<Rightarrow>
     (case add_mpint m1 (rsa_e (public_numbers self)) of
        Inl x \<Rightarrow> Inl x
      | Inr m2 \<Rightarrow>
     (case add_mpint m2 (rsa_n (public_numbers self)) of
        Inl x \<Rightarrow> Inl x
      | Inr m3 \<Rightarrow> Inr (message_asbytes m3))))"



text \<open>\<^verbatim>\<open>get_bits\<close> (lines 108-109) and \<^verbatim>\<open>can_sign\<close> (lines 111-112).\<close>

definition get_bits :: "rsakey \<Rightarrow> nat" where
  "get_bits self = rsakey_size self"

definition can_sign :: "rsakey \<Rightarrow> bool" where
  "can_sign self = (case key self of RSAPrivateKey _ \<Rightarrow> True | RSAPublicKey _ \<Rightarrow> False)"

text \<open>
  \<^verbatim>\<open>sign_ssh_data\<close> (lines 114-126) and \<^verbatim>\<open>verify_ssh_sig\<close> (lines 128-155).  In the
  latter the two fields of the message are read before the \<^verbatim>\<open>try\<close>, and the \<^verbatim>\<open>except\<close>
  clause names \<^verbatim>\<open>InvalidSignature\<close> alone.
\<close>

definition sign_ssh_data :: "provider \<Rightarrow> rsakey \<Rightarrow> bytes \<Rightarrow> exn + message" where
  "sign_ssh_data prov self content =
     (case (if hasattr_sign prov (key self)
            then key_sign prov (key self) content PKCS1v15 SHA1
            else key_signer prov (key self) PKCS1v15 SHA1 content) of
        Inl x \<Rightarrow> Inl x
      | Inr sig \<Rightarrow>
     (case add_string (Message []) (encode_text ''ssh-rsa'') of
        Inl x \<Rightarrow> Inl x
      | Inr m1 \<Rightarrow> add_string m1 sig))"

definition verify_ssh_sig :: "provider \<Rightarrow> rsakey \<Rightarrow> bytes \<Rightarrow> message \<Rightarrow> exn + bool" where
  "verify_ssh_sig prov self content msg =
     (case get_text msg of
        Inl x \<Rightarrow> Inl x
      | Inr (t, m1) \<Rightarrow>
          if t \<noteq> ''ssh-rsa'' then Inr False
          else
     (let h = (case key self of
                 RSAPrivateKey pn \<Rightarrow> RSAPublicKey (priv_public_numbers pn)
               | RSAPublicKey pub \<Rightarrow> RSAPublicKey pub) in
      case get_binary m1 of
        Inl x \<Rightarrow> Inl x
      | Inr (sig, m2) \<Rightarrow>
     (case (if hasattr_verify prov h
            then key_verify prov h sig content PKCS1v15 SHA1
            else key_verifier prov h sig PKCS1v15 SHA1 content) of
        Some InvalidSignature \<Rightarrow> Inr False
      | Some x \<Rightarrow> Inl x
      | None \<Rightarrow> Inr True)))"

text \<open>\<^verbatim>\<open>generate\<close> (lines 173-186); \<^verbatim>\<open>progress_func\<close> is an argument that the body never
  mentions.\<close>

definition generate :: "provider \<Rightarrow> 'f pkey_io \<Rightarrow> int \<Rightarrow> 'p option \<Rightarrow> exn + rsakey" where
  "generate prov io bits progress_func =
     (case generate_private_key prov 65537 bits of
        Inl x \<Rightarrow> Inl x
      | Inr pn \<Rightarrow> RSAKey prov io None None None None (Some (RSAPrivateKey pn)) None)"

section \<open>What the collaborators promise\<close>

text \<open>
  The contract of \<^verbatim>\<open>generate_private_key(exponent, bits)\<close>, as the spec words it: a new
  private key with the public exponent asked for and a modulus of the size asked for.
\<close>

definition honours_generate_contract :: "provider \<Rightarrow> bool" where
  "honours_generate_contract prov \<longleftrightarrow>
     (\<forall>e b pn. generate_private_key prov e b = Inr pn \<longrightarrow>
        rsa_e (priv_public_numbers pn) = e \<and> int (key_size (RSAPrivateKey pn)) = b)"

section \<open>Concrete collaborators, to run the model on\<close>

text \<open>
  A small deterministic provider: it checks public numbers as the library does
  (\<open>n \<ge> 3\<close>, \<open>3 \<le> e < n\<close>, \<open>e\<close> odd), knows one 20-bit key (\<open>1009 * 1013\<close>), signs by
  reversing the payload, and offers the one-call shape of signing and verifying.
\<close>

definition example_private_numbers :: rsa_private_numbers where
  "example_private_numbers =
     \<lparr>priv_p = 1009, priv_q = 1013, priv_d = 832193, priv_dmp1 = 593, priv_dmq1 = 329,
      priv_iqmp = 757, priv_public_numbers = \<lparr>rsa_e = 65537, rsa_n = 1022117\<rparr>\<rparr>"

definition example_check :: "rsa_public_numbers \<Rightarrow> exn option" where
  "example_check pn =
     (if rsa_n pn < 3 then Some (ValueError ''n must be >= 3.'')
      else if rsa_e pn < 3 \<or> rsa_n pn \<le> rsa_e pn then Some (ValueError ''e must be >= 3 and < n.'')
      else if even (rsa_e pn) then Some (ValueError ''e must be odd.'')
      else None)"

definition example_provider :: provider where
  "example_provider =
     \<lparr>check_public_numbers = example_check,
      generate_private_key = (\<lambda>e b.
         if e = 65537 \<and> b = 20 then Inr example_private_numbers
         else Inl (ValueError ''unsupported key size'')),
      load_der_private_key = (\<lambda>content pw.
         if content = [] then Inl (ValueError ''Could not deserialize key data.'')
         else if content = [1] then Inr LoadedDSAPrivateKey
         else Inr (LoadedRSAPrivateKey example_private_numbers)),
      hasattr_sign = (\<lambda>h. case h of RSAPrivateKey _ \<Rightarrow> True | RSAPublicKey _ \<Rightarrow> False),
      key_sign = (\<lambda>h content pad alg.
         case h of RSAPrivateKey _ \<Rightarrow> Inr (rev content)
                 | RSAPublicKey _ \<Rightarrow> Inl (AttributeError ''sign'')),
      key_signer = (\<lambda>h pad alg content. Inl (AttributeError ''signer'')),
      hasattr_verify = (\<lambda>h. True),
      key_verify = (\<lambda>h sig content pad alg.
         if sig = rev content then None else Some InvalidSignature),
      key_verifier = (\<lambda>h sig pad alg content. Some (AttributeError ''verifier''))\<rparr>"

text \<open>The same provider on a backend that does not offer SHA-1 any more: the library
  then raises \<^verbatim>\<open>UnsupportedAlgorithm\<close> instead of verifying.\<close>

definition sha1_refusing_provider :: provider where
  "sha1_refusing_provider =
     example_provider\<lparr>key_verify := (\<lambda>h sig content pad alg.
        if alg = SHA1 then Some (UnsupportedAlgorithm ''sha1'')
        else if sig = rev content then None else Some InvalidSignature)\<rparr>"

text \<open>A key-file reader whose streams are their own content.\<close>

definition example_io :: "bytes pkey_io" where
  "example_io =
     \<lparr>read_private_key = (\<lambda>tag f pw.
         if tag = ''RSA'' then Inr f else Inl (SSHException ''not a valid RSA private key file'')),
      read_private_key_file = (\<lambda>tag name pw.
         if tag = ''RSA'' \<and> name = ''id_rsa'' then Inr [48]
         else Inl (SSHException ''not a valid RSA private key file''))\<rparr>"

text \<open>The public key blob of the 20-bit key, a blob with another tag, and a signature
  blob for the payload \<open>[1, 2, 3]\<close>.\<close>

definition example_blob :: bytes where
  "example_blob =
     [0, 0, 0, 7, 115, 115, 104, 45, 114, 115, 97, 0, 0, 0, 3, 1, 0, 1, 0, 0, 0, 3, 15, 152, 165]"

definition dss_blob :: bytes where
  "dss_blob =
     [0, 0, 0, 7, 115, 115, 104, 45, 100, 115, 115, 0, 0, 0, 3, 1, 0, 1, 0, 0, 0, 3, 15, 152, 165]"

definition example_sig_blob :: bytes where
  "example_sig_blob = [0, 0, 0, 7, 115, 115, 104, 45, 114, 115, 97, 0, 0, 0, 3, 3, 2, 1]"


section \<open>Facts about the wire codec\<close>

text \<open>Text and bytes convert into each other without loss.\<close>

lemma decode_encode_text: "decode_text (encode_text s) = s"
  by (induction s) (simp_all add: decode_text_def encode_text_def unat_of_nat char_of_take_bit_eq flip: take_bit_eq_mod)

lemma u32_digits:
  fixes k :: nat
  assumes lt: "k < 2 ^ 32"
  shows "k div 16777216 mod 256 * 16777216 + k div 65536 mod 256 * 65536
          + k div 256 mod 256 * 256 + k mod 256 = k"
proof -
  define a where "a = k div 256"
  define b where "b = a div 256"
  define c where "c = b div 256"
  have k: "k = a * 256 + k mod 256" by (simp add: a_def)
  have a: "a = b * 256 + a mod 256" by (simp add: b_def)
  have b: "b = c * 256 + b mod 256" by (simp add: c_def)
  have d16: "k div 65536 = b" by (simp add: a_def b_def div_mult2_eq)
  have d24: "k div 16777216 = c" by (simp add: a_def b_def c_def div_mult2_eq)
  have "c < 256" using lt unfolding d24 [symmetric] by simp
  then have cm: "c mod 256 = c" by simp
  show ?thesis
    unfolding d16 d24 cm a_def [symmetric] using k a b by linarith
qed

lemma unpack_pack_u32:
  assumes "pack_u32 k = Inr l"
  shows "unpack_u32 l = k" and "length l = 4"
proof -
  from assms have lt: "k < 2 ^ 32"
    by (simp add: pack_u32_def split: if_splits)
  have "k div 16777216 mod 256 * 16777216 + k div 65536 mod 256 * 65536
          + k div 256 mod 256 * 256 + k mod 256 = k"
    using lt by (rule u32_digits)
  with assms lt show "unpack_u32 l = k"
    by (auto simp: pack_u32_def unpack_u32_def unat_of_nat split: if_splits)
  from assms show "length l = 4"
    by (auto simp: pack_u32_def split: if_splits)
qed

lemma pack_u32_total: "k < 2 ^ 32 \<Longrightarrow> \<exists>l. pack_u32 k = Inr l"
  by (simp add: pack_u32_def)

lemma be_value_append: "be_value acc (xs @ [b]) = be_value acc xs * 256 + uint b"
  by (induction xs arbitrary: acc) simp_all

lemma deflate_long_nonempty: "deflate_long i \<noteq> []"
  by (subst deflate_long.simps) simp

lemma inflate_deflate_long: "inflate_long (deflate_long i) = i"
proof (induction i rule: deflate_long.induct)
  case (1 i)
  show ?case
  proof (cases "- 128 \<le> i \<and> i < 128")
    case True
    then have "sint (word_of_int i :: 8 word) = i"
      by (simp add: int_word_sint)
    with True show ?thesis
      by (subst deflate_long.simps) (simp add: inflate_long_def)
  next
    case False
    obtain b rest where br: "deflate_long (i div 256) = b # rest"
      using deflate_long_nonempty [of "i div 256"] by (cases "deflate_long (i div 256)") auto
    from 1 False have ih: "inflate_long (deflate_long (i div 256)) = i div 256" by simp
    have "inflate_long (deflate_long i) = inflate_long ((b # rest) @ [word_of_int i])"
      by (subst deflate_long.simps, subst if_not_P [OF False]) (simp add: br)
    also have "\<dots> = be_value (sint b) rest * 256 + uint (word_of_int i :: 8 word)"
      by (simp add: inflate_long_def be_value_append)
    also have "\<dots> = (i div 256) * 256 + i mod 256"
      using ih br by (simp add: inflate_long_def uint_word_of_int)
    finally show ?thesis by simp
  qed
qed

text \<open>Reading back a field that was appended: the cursor stands where the field starts.\<close>

lemma get_binary_at:
  assumes "pack_u32 (length s) = Inr l"
  shows "get_binary \<lparr>packet = pre @ l @ s @ post, idx = length pre\<rparr>
           = Inr (s, \<lparr>packet = pre @ l @ s @ post, idx = length pre + 4 + length s\<rparr>)"
proof -
  from assms have l4: "length l = 4" and ul: "unpack_u32 l = length s"
    by (simp_all add: unpack_pack_u32)
  have "get_bytes \<lparr>packet = pre @ l @ s @ post, idx = length pre\<rparr> 4
          = Inr (l, \<lparr>packet = pre @ l @ s @ post, idx = length pre + 4\<rparr>)"
    using l4 by (simp add: get_bytes_def)
  moreover have "get_bytes \<lparr>packet = pre @ l @ s @ post, idx = length pre + 4\<rparr> (length s)
          = Inr (s, \<lparr>packet = pre @ l @ s @ post, idx = length pre + 4 + length s\<rparr>)"
    using l4 by (simp add: get_bytes_def)
  ultimately show ?thesis
    by (simp add: get_binary_def ul)
qed



lemma byte_char_byte: "word_of_nat (unat b mod 256) = (b :: 8 word)"
proof -
  have "unat b < 2 ^ LENGTH(8)"
    by (rule unsigned_less)
  then have "unat b mod 256 = unat b"
    by simp
  then show ?thesis by simp
qed

lemma encode_decode_text: "encode_text (decode_text bs) = bs"
  by (induction bs) (simp_all add: decode_text_def encode_text_def byte_char_byte)

lemma public_numbers_eta: "\<lparr>rsa_e = rsa_e pn, rsa_n = rsa_n pn\<rparr> = pn"
  by (cases pn) simp

lemma decode_text_eq: "decode_text bs = t \<longleftrightarrow> bs = encode_text t"
  using decode_encode_text encode_decode_text by metis

lemma ssh_rsa_bytes: "encode_text ''ssh-rsa'' = [115, 115, 104, 45, 114, 115, 97]"
  by (simp add: encode_text_def)

lemma ssh_dss_bytes: "encode_text ''ssh-dss'' = [115, 115, 104, 45, 100, 115, 115]"
  by (simp add: encode_text_def)

lemma get_text_at:
  assumes "pack_u32 (length (encode_text t)) = Inr l"
  shows "get_text \<lparr>packet = pre @ l @ encode_text t @ post, idx = length pre\<rparr>
           = Inr (t, \<lparr>packet = pre @ l @ encode_text t @ post,
                      idx = length pre + 4 + length (encode_text t)\<rparr>)"
  by (simp add: get_text_def get_binary_at [OF assms] decode_encode_text)

lemma get_mpint_at:
  assumes "pack_u32 (length (deflate_long i)) = Inr l"
  shows "get_mpint \<lparr>packet = pre @ l @ deflate_long i @ post, idx = length pre\<rparr>
           = Inr (i, \<lparr>packet = pre @ l @ deflate_long i @ post,
                      idx = length pre + 4 + length (deflate_long i)\<rparr>)"
  by (simp add: get_mpint_def get_binary_at [OF assms] inflate_deflate_long)

lemma asbytes_shape:
  assumes "asbytes k = Inr bs"
  obtains l0 l1 l2 where
    "pack_u32 (length (encode_text ''ssh-rsa'')) = Inr l0"
    "pack_u32 (length (deflate_long (rsa_e (public_numbers k)))) = Inr l1"
    "pack_u32 (length (deflate_long (rsa_n (public_numbers k)))) = Inr l2"
    "bs = l0 @ encode_text ''ssh-rsa'' @ l1 @ deflate_long (rsa_e (public_numbers k))
            @ l2 @ deflate_long (rsa_n (public_numbers k))"
  using assms
  by (auto simp: asbytes_def add_mpint_def add_string_def Message_def message_asbytes_def
           split: sum.splits)

lemma asbytes_total:
  assumes "length (deflate_long (rsa_e (public_numbers k))) < 2 ^ 32"
      and "length (deflate_long (rsa_n (public_numbers k))) < 2 ^ 32"
  shows "\<exists>bs. asbytes k = Inr bs"
proof -
  obtain l0 where "pack_u32 (length (encode_text ''ssh-rsa'')) = Inr l0"
    by (simp add: pack_u32_def encode_text_def)
  moreover obtain l1 where "pack_u32 (length (deflate_long (rsa_e (public_numbers k)))) = Inr l1"
    using assms(1) pack_u32_total by blast
  moreover obtain l2 where "pack_u32 (length (deflate_long (rsa_n (public_numbers k)))) = Inr l2"
    using assms(2) pack_u32_total by blast
  ultimately show ?thesis
    by (simp add: asbytes_def add_mpint_def add_string_def)
qed

lemma read_key_blob:
  assumes "asbytes k = Inr bs"
  shows "\<exists>m1 m2 m3.
           get_text (Message bs) = Inr (''ssh-rsa'', m1)
         \<and> get_mpint m1 = Inr (rsa_e (public_numbers k), m2)
         \<and> get_mpint m2 = Inr (rsa_n (public_numbers k), m3)"
proof -
  let ?E = "deflate_long (rsa_e (public_numbers k))"
  let ?N = "deflate_long (rsa_n (public_numbers k))"
  let ?T = "encode_text ''ssh-rsa''"
  from assms obtain l0 l1 l2 where
    l0: "pack_u32 (length ?T) = Inr l0" and
    l1: "pack_u32 (length ?E) = Inr l1" and
    l2: "pack_u32 (length ?N) = Inr l2" and
    bs: "bs = l0 @ ?T @ l1 @ ?E @ l2 @ ?N"
    by (rule asbytes_shape)
  have len0: "length l0 = 4" and len1: "length l1 = 4"
    using l0 l1 by (simp_all add: unpack_pack_u32)
  have a: "get_text (Message bs)
             = Inr (''ssh-rsa'', \<lparr>packet = bs, idx = 4 + length ?T\<rparr>)"
    using get_text_at [OF l0, of "[]" "l1 @ ?E @ l2 @ ?N"]
    by (simp add: Message_def bs)
  have b: "get_mpint \<lparr>packet = bs, idx = 4 + length ?T\<rparr>
             = Inr (rsa_e (public_numbers k), \<lparr>packet = bs, idx = 4 + length ?T + 4 + length ?E\<rparr>)"
    using get_mpint_at [OF l1, of "l0 @ ?T" "l2 @ ?N"]
    by (simp add: bs len0)
  have c: "get_mpint \<lparr>packet = bs, idx = 4 + length ?T + 4 + length ?E\<rparr>
             = Inr (rsa_n (public_numbers k),
                    \<lparr>packet = bs, idx = 4 + length ?T + 4 + length ?E + 4 + length ?N\<rparr>)"
    using get_mpint_at [OF l2, of "l0 @ ?T @ l1 @ ?E" "[]"]
    by (simp add: bs len0 len1 add.assoc)
  from a b c show ?thesis by blast
qed

section \<open>The model on the concrete collaborators\<close>

lemma deflate_long_65537: "deflate_long 65537 = [1, 0, 1]"
  by (simp add: deflate_long.simps)

lemma deflate_long_1022117: "deflate_long 1022117 = [15, 152, 165]"
  by (simp add: deflate_long.simps)

lemma example_public_numbers:
  "public_numbers \<lparr>key = RSAPrivateKey example_private_numbers\<rparr> = \<lparr>rsa_e = 65537, rsa_n = 1022117\<rparr>"
  by (simp add: public_numbers_def example_private_numbers_def)

lemma example_asbytes:
  "asbytes \<lparr>key = RSAPrivateKey example_private_numbers\<rparr> = Inr example_blob"
  by (simp add: asbytes_def example_public_numbers add_mpint_def add_string_def pack_u32_def
        Message_def message_asbytes_def ssh_rsa_bytes deflate_long_65537 deflate_long_1022117
        example_blob_def)

lemma example_check_ok: "example_check \<lparr>rsa_e = 65537, rsa_n = 1022117\<rparr> = None"
  by (simp add: example_check_def)

lemma get_binary_eval:
  "get_binary \<lparr>packet = bs, idx = i\<rparr> =
     (if i + 4 \<le> length bs
      then (if i + 4 + unpack_u32 (take 4 (drop i bs)) \<le> length bs
            then Inr (take (unpack_u32 (take 4 (drop i bs))) (drop (i + 4) bs),
                      \<lparr>packet = bs, idx = i + 4 + unpack_u32 (take 4 (drop i bs))\<rparr>)
            else Inl (SSHException ''Invalid key''))
      else Inl (SSHException ''Invalid key''))"
  by (simp add: get_binary_def get_bytes_def)

lemma read_example_blob:
  "get_text (Message example_blob) = Inr (''ssh-rsa'', \<lparr>packet = example_blob, idx = 11\<rparr>)"
  "get_mpint \<lparr>packet = example_blob, idx = 11\<rparr> = Inr (65537, \<lparr>packet = example_blob, idx = 18\<rparr>)"
  "get_mpint \<lparr>packet = example_blob, idx = 18\<rparr> = Inr (1022117, \<lparr>packet = example_blob, idx = 25\<rparr>)"
  by (simp_all add: get_text_def get_mpint_def get_binary_eval Message_def example_blob_def
        unpack_u32_def decode_text_eq ssh_rsa_bytes inflate_long_def)

lemma read_dss_blob:
  "get_text (Message dss_blob) = Inr (''ssh-dss'', \<lparr>packet = dss_blob, idx = 11\<rparr>)"
  by (simp add: get_text_def get_binary_eval Message_def dss_blob_def
        unpack_u32_def decode_text_eq ssh_dss_bytes)

lemma read_example_sig_blob:
  "get_text (Message example_sig_blob) = Inr (''ssh-rsa'', \<lparr>packet = example_sig_blob, idx = 11\<rparr>)"
  "get_binary \<lparr>packet = example_sig_blob, idx = 11\<rparr> = Inr ([3, 2, 1], \<lparr>packet = example_sig_blob, idx = 18\<rparr>)"
  by (simp_all add: get_text_def get_binary_eval Message_def example_sig_blob_def
        unpack_u32_def decode_text_eq ssh_rsa_bytes)

lemma example_key_size: "key_size (RSAPrivateKey example_private_numbers) = 20"
  by (simp add: key_size_def handle_public_numbers_def example_private_numbers_def bit_length.simps)

lemma example_generate_contract: "honours_generate_contract example_provider"
proof -
  have "rsa_e (priv_public_numbers example_private_numbers) = 65537"
    by (simp add: example_private_numbers_def)
  then show ?thesis
    by (auto simp: honours_generate_contract_def example_provider_def example_key_size
             split: if_splits)
qed

lemma pack_u32_7: "pack_u32 (length (encode_text ''ssh-rsa'')) = Inr [0, 0, 0, 7]"
  by (simp add: pack_u32_def encode_text_def)

section \<open>Wire encoding and construction\<close>

text \<open>
  C2 (round trip).  Let \<open>k\<close> be a key whose public numbers the provider accepts, and let
  \<open>bs\<close> be the bytes that \<^verbatim>\<open>k.asbytes()\<close> produces.  Then constructing a key from the raw
  bytes \<open>bs\<close> succeeds, and the new key has the same algorithm name and the same pair
  \<open>(e, n)\<close>.  The key \<open>k\<close> may be public-only or private, and \<open>e\<close>, \<open>n\<close> range over all
  integers.
\<close>

theorem asbytes_roundtrip:
  assumes "asbytes k = Inr bs"
      and "check_public_numbers prov (public_numbers k) = None"
  shows "\<exists>k'. RSAKey prov io None (Some bs) None password None None = Inr k'
            \<and> get_name k' = get_name k
            \<and> public_numbers k' = public_numbers k"
proof -
  from assms(1) obtain m1 m2 m3 where
    "get_text (Message bs) = Inr (''ssh-rsa'', m1)"
    "get_mpint m1 = Inr (rsa_e (public_numbers k), m2)"
    "get_mpint m2 = Inr (rsa_n (public_numbers k), m3)"
    using read_key_blob by blast
  with assms(2) have
    "RSAKey prov io None (Some bs) None password None None
       = Inr \<lparr>key = RSAPublicKey (public_numbers k)\<rparr>"
    by (simp add: RSAKey_def RSAKey_init_def public_key_of_numbers_def public_numbers_eta)
  then show ?thesis
    by (simp add: get_name_def public_numbers_def)
qed

text \<open>The round trip on the 20-bit key: its blob is 25 bytes long and is read back to
  \<open>(65537, 1022117)\<close>.\<close>

theorem asbytes_roundtrip_witness:
  "asbytes \<lparr>key = RSAPrivateKey example_private_numbers\<rparr> = Inr example_blob
   \<and> check_public_numbers example_provider
         (public_numbers \<lparr>key = RSAPrivateKey example_private_numbers\<rparr>) = None
   \<and> (\<exists>k'. RSAKey example_provider example_io None (Some example_blob) None None None None = Inr k'
           \<and> get_name k' = ''ssh-rsa''
           \<and> public_numbers k' = \<lparr>rsa_e = 65537, rsa_n = 1022117\<rparr>)"
proof -
  have h: "check_public_numbers example_provider
             (public_numbers \<lparr>key = RSAPrivateKey example_private_numbers\<rparr>) = None"
    by (simp add: example_provider_def example_public_numbers example_check_ok)
  from asbytes_roundtrip [OF example_asbytes h, of example_io None] example_asbytes h
  show ?thesis
    by (simp add: example_public_numbers get_name_def)
qed

text \<open>
  C3 as stated says that a wire message wins over an explicit key handle.  Here both
  are supplied: the message carries the 20-bit key, the handle is the public key
  \<open>(3, 35)\<close>.  The object holds the handle; the message alone would have given the 20-bit
  key.
\<close>

theorem init_priority_counterexample:
  "RSAKey example_provider example_io (Some (Message example_blob)) None None None
      (Some (RSAPublicKey \<lparr>rsa_e = 3, rsa_n = 35\<rparr>)) None
     = Inr \<lparr>key = RSAPublicKey \<lparr>rsa_e = 3, rsa_n = 35\<rparr>\<rparr>
   \<and> RSAKey example_provider example_io (Some (Message example_blob)) None None None None None
     = Inr \<lparr>key = RSAPublicKey \<lparr>rsa_e = 65537, rsa_n = 1022117\<rparr>\<rparr>
   \<and> RSAKey example_provider example_io (Some (Message example_blob)) None None None
      (Some (RSAPublicKey \<lparr>rsa_e = 3, rsa_n = 35\<rparr>)) None
     \<noteq> RSAKey example_provider example_io (Some (Message example_blob)) None None None None None"
  by (simp add: RSAKey_def RSAKey_init_def read_example_blob public_key_of_numbers_def
        example_provider_def example_check_ok)

text \<open>
  C3, amended.  The order of the sources is stream, path, explicit key handle, wire
  message, raw bytes: a stream makes every other source irrelevant; without a stream a
  path does; without both a key handle is stored as it is, whatever message or bytes
  come with it, and the message is not read; without the three a message is used and
  the bytes are ignored; the bytes are wrapped into a message only when they come
  alone.
\<close>

theorem init_priority:
  "RSAKey prov io msg content filename password key_arg (Some f)
     = RSAKey prov io None None None password None (Some f)
   \<and> RSAKey prov io msg content (Some name) password key_arg None
     = RSAKey prov io None None (Some name) password None None
   \<and> RSAKey prov io msg content None password (Some h) None
     = Inr \<lparr>key = h\<rparr>
   \<and> RSAKey_init prov io (Some m) content None password (Some h) None
     = Inr (\<lparr>key = h\<rparr>, Some m)
   \<and> RSAKey prov io (Some m) content None password None None
     = RSAKey prov io (Some m) None None None None None
   \<and> RSAKey prov io None (Some d) None password None None
     = RSAKey prov io (Some (Message d)) None None None None None"
  by (simp add: RSAKey_def RSAKey_init_def sum.map_comp comp_def split: option.splits)

text \<open>
  C4.  Construction from a wire message (no stream, no path, no key handle): when the
  first string of the message is read and is anything but \<open>ssh-rsa\<close>, construction fails
  with the protocol error \<open>Invalid key\<close>.  When it is \<open>ssh-rsa\<close>, and two integers \<open>e\<close> and
  then \<open>n\<close> can be read after it, and the provider accepts \<open>(e, n)\<close>, the result is the
  public key built from \<open>(e, n)\<close>, which cannot sign, and the cursor of the message stands
  right after the second integer: nothing else was read.  Raw bytes are treated as the
  message that wraps them.
\<close>

theorem init_from_message:
  "(get_text m = Inr (t, m1) \<and> t \<noteq> ''ssh-rsa'' \<longrightarrow>
      RSAKey_init prov io (Some m) content None password None None
        = Inl (SSHException ''Invalid key''))
   \<and> (get_text m = Inr (''ssh-rsa'', m1) \<and> get_mpint m1 = Inr (e, m2)
        \<and> get_mpint m2 = Inr (n, m3)
        \<and> check_public_numbers prov \<lparr>rsa_e = e, rsa_n = n\<rparr> = None \<longrightarrow>
      RSAKey_init prov io (Some m) content None password None None
        = Inr (\<lparr>key = RSAPublicKey \<lparr>rsa_e = e, rsa_n = n\<rparr>\<rparr>, Some m3)
      \<and> public_numbers \<lparr>key = RSAPublicKey \<lparr>rsa_e = e, rsa_n = n\<rparr>\<rparr> = \<lparr>rsa_e = e, rsa_n = n\<rparr>
      \<and> \<not> can_sign \<lparr>key = RSAPublicKey \<lparr>rsa_e = e, rsa_n = n\<rparr>\<rparr>)
   \<and> RSAKey_init prov io None (Some d) None password None None
        = RSAKey_init prov io (Some (Message d)) None None password None None"
  by (simp add: RSAKey_init_def public_key_of_numbers_def public_numbers_def can_sign_def
           split: option.splits)

text \<open>Both cases of C4 on concrete blobs: one tagged \<open>ssh-dss\<close>, one tagged \<open>ssh-rsa\<close>.\<close>

theorem init_from_message_witness:
  "get_text (Message dss_blob) = Inr (''ssh-dss'', \<lparr>packet = dss_blob, idx = 11\<rparr>)
   \<and> ''ssh-dss'' \<noteq> ''ssh-rsa''
   \<and> RSAKey_init example_provider example_io (Some (Message dss_blob)) None None None None None
        = Inl (SSHException ''Invalid key'')
   \<and> get_text (Message example_blob) = Inr (''ssh-rsa'', \<lparr>packet = example_blob, idx = 11\<rparr>)
   \<and> get_mpint \<lparr>packet = example_blob, idx = 11\<rparr> = Inr (65537, \<lparr>packet = example_blob, idx = 18\<rparr>)
   \<and> get_mpint \<lparr>packet = example_blob, idx = 18\<rparr> = Inr (1022117, \<lparr>packet = example_blob, idx = 25\<rparr>)
   \<and> check_public_numbers example_provider \<lparr>rsa_e = 65537, rsa_n = 1022117\<rparr> = None
   \<and> RSAKey_init example_provider example_io (Some (Message example_blob)) None None None None None
        = Inr (\<lparr>key = RSAPublicKey \<lparr>rsa_e = 65537, rsa_n = 1022117\<rparr>\<rparr>,
               Some \<lparr>packet = example_blob, idx = 25\<rparr>)
   \<and> \<not> can_sign \<lparr>key = RSAPublicKey \<lparr>rsa_e = 65537, rsa_n = 1022117\<rparr>\<rparr>"
proof -
  have c: "check_public_numbers example_provider \<lparr>rsa_e = 65537, rsa_n = 1022117\<rparr> = None"
    by (simp add: example_provider_def example_check_ok)
  have d: "''ssh-dss'' \<noteq> ''ssh-rsa''"
    by simp
  from init_from_message [of "Message dss_blob" "''ssh-dss''" "\<lparr>packet = dss_blob, idx = 11\<rparr>"
         example_provider example_io None None 0 "\<lparr>packet = dss_blob, idx = 11\<rparr>" 0
         "\<lparr>packet = dss_blob, idx = 11\<rparr>" "[]"]
       init_from_message [of "Message example_blob" "''ssh-rsa''" "\<lparr>packet = example_blob, idx = 11\<rparr>"
         example_provider example_io None None 65537 "\<lparr>packet = example_blob, idx = 18\<rparr>" 1022117
         "\<lparr>packet = example_blob, idx = 25\<rparr>" "[]"]
       read_dss_blob read_example_blob c d
  show ?thesis
    by simp
qed

text \<open>
  C9.  When construction is given a wire message and raw bytes, the bytes are ignored:
  the result, and the final state of the message, are those of the same call without
  the bytes, whatever the other arguments are.
\<close>

theorem init_msg_ignores_data:
  "RSAKey_init prov io (Some m) (Some d) filename password key_arg file_obj
     = RSAKey_init prov io (Some m) None filename password key_arg file_obj"
  by (simp add: RSAKey_init_def split: option.splits)

section \<open>Identity\<close>

text \<open>
  C10.  The wire encoding depends on the public identity only: two instances with the
  same \<open>(e, n)\<close> have the same \<^verbatim>\<open>asbytes()\<close>, byte for byte (or fail alike), whether they
  are public-only or hold private material, and whatever that material is.
\<close>

theorem asbytes_public_identity:
  "public_numbers k1 = public_numbers k2 \<Longrightarrow> asbytes k1 = asbytes k2"
  by (simp add: asbytes_def cong: sum.case_cong)

text \<open>The 20-bit private key and the public key with its numbers: one can sign, the other
  cannot, and both encode to the same 25 bytes.\<close>

theorem asbytes_public_identity_witness:
  "public_numbers \<lparr>key = RSAPrivateKey example_private_numbers\<rparr>
     = public_numbers \<lparr>key = RSAPublicKey \<lparr>rsa_e = 65537, rsa_n = 1022117\<rparr>\<rparr>
   \<and> can_sign \<lparr>key = RSAPrivateKey example_private_numbers\<rparr>
   \<and> \<not> can_sign \<lparr>key = RSAPublicKey \<lparr>rsa_e = 65537, rsa_n = 1022117\<rparr>\<rparr>
   \<and> asbytes \<lparr>key = RSAPublicKey \<lparr>rsa_e = 65537, rsa_n = 1022117\<rparr>\<rparr> = Inr example_blob"
proof -
  have h: "public_numbers \<lparr>key = RSAPrivateKey example_private_numbers\<rparr>
             = public_numbers \<lparr>key = RSAPublicKey \<lparr>rsa_e = 65537, rsa_n = 1022117\<rparr>\<rparr>"
    by (simp add: public_numbers_def example_private_numbers_def)
  from asbytes_public_identity [OF h] h example_asbytes show ?thesis
    by (simp add: can_sign_def)
qed




section \<open>Private keys from a container\<close>



section \<open>Signing and verification\<close>

text \<open>
  C1 as stated says that no error leaves \<^verbatim>\<open>verify_ssh_sig\<close>.  The source catches
  \<^verbatim>\<open>InvalidSignature\<close> and nothing else: with a provider that refuses SHA-1, a well-formed
  signature message makes the call raise \<^verbatim>\<open>UnsupportedAlgorithm\<close>.
\<close>

theorem verify_error_propagates:
  "verify_ssh_sig sha1_refusing_provider \<lparr>key = RSAPublicKey \<lparr>rsa_e = 65537, rsa_n = 1022117\<rparr>\<rparr>
      [1, 2, 3] (Message example_sig_blob)
     = Inl (UnsupportedAlgorithm ''sha1'')"
  by (simp add: verify_ssh_sig_def read_example_sig_blob sha1_refusing_provider_def
        example_provider_def)

text \<open>
  C1, amended.  For every payload and every wire message whose fields can be read: when
  the first field is not \<open>ssh-rsa\<close> the result is false, and nothing is raised; otherwise
  the provider is asked to verify the signature bytes over the payload with PKCS#1 v1.5
  and SHA-1 under the public key of the instance, the result is true exactly when the
  provider accepts, it is false when the provider raises \<^verbatim>\<open>InvalidSignature\<close>, and an
  error of any other class that the provider raises leaves the call unchanged.
\<close>

theorem verify_ssh_sig_result:
  "(get_text msg = Inr (t, m1) \<and> t \<noteq> ''ssh-rsa'' \<longrightarrow>
      verify_ssh_sig prov k content msg = Inr False)
   \<and> (get_text msg = Inr (''ssh-rsa'', m1) \<and> get_binary m1 = Inr (sig, m2)
        \<and> r = (if hasattr_verify prov (RSAPublicKey (public_numbers k))
                then key_verify prov (RSAPublicKey (public_numbers k)) sig content PKCS1v15 SHA1
                else key_verifier prov (RSAPublicKey (public_numbers k)) sig PKCS1v15 SHA1 content) \<longrightarrow>
      (verify_ssh_sig prov k content msg = Inr True \<longleftrightarrow> r = None)
      \<and> (r = Some InvalidSignature \<longrightarrow> verify_ssh_sig prov k content msg = Inr False)
      \<and> (\<forall>x. r = Some x \<and> x \<noteq> InvalidSignature \<longrightarrow> verify_ssh_sig prov k content msg = Inl x))"
proof -
  have pub: "(case key k of RSAPrivateKey pn \<Rightarrow> RSAPublicKey (priv_public_numbers pn)
                          | RSAPublicKey pub \<Rightarrow> RSAPublicKey pub)
               = RSAPublicKey (public_numbers k)"
    by (simp add: public_numbers_def split: key_handle.splits)
  show ?thesis
    unfolding verify_ssh_sig_def pub Let_def
    by (auto split: option.splits exn.splits)
qed

text \<open>A wrong tag, a good signature, a bad one, and a provider that refuses the hash.\<close>

theorem verify_ssh_sig_result_witness:
  "verify_ssh_sig example_provider \<lparr>key = RSAPrivateKey example_private_numbers\<rparr> [1, 2, 3]
      (Message dss_blob) = Inr False
   \<and> verify_ssh_sig example_provider \<lparr>key = RSAPrivateKey example_private_numbers\<rparr> [1, 2, 3]
      (Message example_sig_blob) = Inr True
   \<and> verify_ssh_sig example_provider \<lparr>key = RSAPrivateKey example_private_numbers\<rparr> [1, 2, 4]
      (Message example_sig_blob) = Inr False
   \<and> verify_ssh_sig sha1_refusing_provider \<lparr>key = RSAPrivateKey example_private_numbers\<rparr> [1, 2, 3]
      (Message example_sig_blob) = Inl (UnsupportedAlgorithm ''sha1'')"
proof -
  let ?k = "\<lparr>key = RSAPrivateKey example_private_numbers\<rparr>"
  let ?m1 = "\<lparr>packet = example_sig_blob, idx = 11\<rparr>"
  let ?m2 = "\<lparr>packet = example_sig_blob, idx = 18\<rparr>"
  have d: "''ssh-dss'' \<noteq> ''ssh-rsa''"
    by simp
  have good: "(if hasattr_verify example_provider (RSAPublicKey (public_numbers ?k))
               then key_verify example_provider (RSAPublicKey (public_numbers ?k)) [3, 2, 1] [1, 2, 3] PKCS1v15 SHA1
               else key_verifier example_provider (RSAPublicKey (public_numbers ?k)) [3, 2, 1] PKCS1v15 SHA1 [1, 2, 3])
              = None"
    by (simp add: example_provider_def)
  have bad: "(if hasattr_verify example_provider (RSAPublicKey (public_numbers ?k))
               then key_verify example_provider (RSAPublicKey (public_numbers ?k)) [3, 2, 1] [1, 2, 4] PKCS1v15 SHA1
               else key_verifier example_provider (RSAPublicKey (public_numbers ?k)) [3, 2, 1] PKCS1v15 SHA1 [1, 2, 4])
              = Some InvalidSignature"
    by (simp add: example_provider_def)
  have refused: "(if hasattr_verify sha1_refusing_provider (RSAPublicKey (public_numbers ?k))
               then key_verify sha1_refusing_provider (RSAPublicKey (public_numbers ?k)) [3, 2, 1] [1, 2, 3] PKCS1v15 SHA1
               else key_verifier sha1_refusing_provider (RSAPublicKey (public_numbers ?k)) [3, 2, 1] PKCS1v15 SHA1 [1, 2, 3])
              = Some (UnsupportedAlgorithm ''sha1'')"
    by (simp add: sha1_refusing_provider_def example_provider_def)
  have a: "verify_ssh_sig example_provider ?k [1, 2, 3] (Message dss_blob) = Inr False"
    using verify_ssh_sig_result [of "Message dss_blob" "''ssh-dss''" "\<lparr>packet = dss_blob, idx = 11\<rparr>"
            example_provider ?k "[1, 2, 3]"] read_dss_blob d
    by simp
  have b: "verify_ssh_sig example_provider ?k [1, 2, 3] (Message example_sig_blob) = Inr True"
    using verify_ssh_sig_result [of "Message example_sig_blob" "''ssh-rsa''" ?m1
            example_provider ?k "[1, 2, 3]" "[3, 2, 1]" ?m2 None] read_example_sig_blob good
    by simp
  have c: "verify_ssh_sig example_provider ?k [1, 2, 4] (Message example_sig_blob) = Inr False"
    using verify_ssh_sig_result [of "Message example_sig_blob" "''ssh-rsa''" ?m1
            example_provider ?k "[1, 2, 4]" "[3, 2, 1]" ?m2 "Some InvalidSignature"]
          read_example_sig_blob bad
    by simp
  have e: "verify_ssh_sig sha1_refusing_provider ?k [1, 2, 3] (Message example_sig_blob)
             = Inl (UnsupportedAlgorithm ''sha1'')"
    using verify_ssh_sig_result [of "Message example_sig_blob" "''ssh-rsa''" ?m1
            sha1_refusing_provider ?k "[1, 2, 3]" "[3, 2, 1]" ?m2 "Some (UnsupportedAlgorithm ''sha1'')"]
          read_example_sig_blob refused
    by simp
  from a b c e show ?thesis by simp
qed

text \<open>
  C8.  When the provider signs the payload under the key of the instance with PKCS#1 v1.5
  and SHA-1 (through whichever of its two call shapes the key object offers) and the
  signature is shorter than \<open>2^32\<close> bytes, \<^verbatim>\<open>sign_ssh_data\<close> returns a message whose bytes
  are the length-prefixed string \<open>ssh-rsa\<close> followed by the length-prefixed signature, and
  nothing else: read back, it yields the name, then the signature, and ends there.
\<close>

theorem sign_ssh_data_message:
  assumes "(if hasattr_sign prov (key k)
            then key_sign prov (key k) content PKCS1v15 SHA1
            else key_signer prov (key k) PKCS1v15 SHA1 content) = Inr sig"
      and "length sig < 2 ^ 32"
  shows "\<exists>m l m1 m2.
           sign_ssh_data prov k content = Inr m
         \<and> pack_u32 (length sig) = Inr l
         \<and> message_asbytes m = [0, 0, 0, 7] @ encode_text ''ssh-rsa'' @ l @ sig
         \<and> get_text (Message (message_asbytes m)) = Inr (''ssh-rsa'', m1)
         \<and> get_binary m1 = Inr (sig, m2)
         \<and> idx m2 = length (message_asbytes m)"
proof -
  let ?T = "encode_text ''ssh-rsa''"
  obtain l where l: "pack_u32 (length sig) = Inr l"
    using assms(2) pack_u32_total by blast
  then have len_l: "length l = 4"
    by (simp add: unpack_pack_u32)
  let ?bs = "[0, 0, 0, 7] @ ?T @ l @ sig"
  have s: "sign_ssh_data prov k content = Inr \<lparr>packet = ?bs, idx = 0\<rparr>"
    using assms(1) l pack_u32_7
    by (simp add: sign_ssh_data_def add_string_def Message_def)
  have a: "get_text (Message ?bs) = Inr (''ssh-rsa'', \<lparr>packet = ?bs, idx = 4 + length ?T\<rparr>)"
    using get_text_at [OF pack_u32_7, of "[]" "l @ sig"]
    by (simp add: Message_def)
  have pre: "length ([0, 0, 0, 7] @ ?T) = 4 + length ?T"
    by simp
  have "get_binary \<lparr>packet = ?bs, idx = length ([0, 0, 0, 7] @ ?T)\<rparr>
          = Inr (sig, \<lparr>packet = ?bs, idx = length ([0, 0, 0, 7] @ ?T) + 4 + length sig\<rparr>)"
    using get_binary_at [OF l, of "[0, 0, 0, 7] @ ?T" "[]"]
    by simp
  then have b: "get_binary \<lparr>packet = ?bs, idx = 4 + length ?T\<rparr>
             = Inr (sig, \<lparr>packet = ?bs, idx = 4 + length ?T + 4 + length sig\<rparr>)"
    unfolding pre .
  have c: "idx \<lparr>packet = ?bs, idx = 4 + length ?T + 4 + length sig\<rparr> = length ?bs"
    by (simp add: len_l)
  from s l a b c show ?thesis
    by (simp add: message_asbytes_def)
qed

text \<open>Signing \<open>[1, 2, 3]\<close> with the example provider gives the 18 bytes of the example
  signature blob.\<close>

theorem sign_ssh_data_message_witness:
  "key_sign example_provider (RSAPrivateKey example_private_numbers) [1, 2, 3] PKCS1v15 SHA1
     = Inr [3, 2, 1]
   \<and> map_sum id message_asbytes
        (sign_ssh_data example_provider \<lparr>key = RSAPrivateKey example_private_numbers\<rparr> [1, 2, 3])
     = Inr example_sig_blob"
proof -
  let ?k = "\<lparr>key = RSAPrivateKey example_private_numbers\<rparr>"
  have h: "(if hasattr_sign example_provider (key ?k)
            then key_sign example_provider (key ?k) [1, 2, 3] PKCS1v15 SHA1
            else key_signer example_provider (key ?k) PKCS1v15 SHA1 [1, 2, 3]) = Inr [3, 2, 1]"
    by (simp add: example_provider_def)
  have len: "length [3, 2, 1 :: 8 word] < 2 ^ 32"
    by simp
  have p: "pack_u32 (length [3, 2, 1 :: 8 word]) = Inr [0, 0, 0, 3]"
    by (simp add: pack_u32_def)
  from sign_ssh_data_message [OF h len] p
  have "map_sum id message_asbytes (sign_ssh_data example_provider ?k [1, 2, 3])
          = Inr ([0, 0, 0, 7] @ encode_text ''ssh-rsa'' @ [0, 0, 0, 3] @ [3, 2, 1])"
    by auto
  then show ?thesis
    by (simp add: ssh_rsa_bytes example_sig_blob_def example_provider_def)
qed

section \<open>Generation\<close>

text \<open>
  C5.  With a provider that honours the contract of key generation, for every bit size
  that the provider accepts, \<^verbatim>\<open>generate(bits)\<close> returns a private-state instance: it can
  sign, its public exponent is 65537, and \<^verbatim>\<open>size\<close> and \<^verbatim>\<open>get_bits()\<close> are the requested
  bits.  The progress callback has no part in it: any two callbacks give the same result.
\<close>

theorem generate_result:
  assumes "honours_generate_contract prov"
      and "generate_private_key prov 65537 bits = Inr pn"
  shows "generate prov io bits progress_func = Inr \<lparr>key = RSAPrivateKey pn\<rparr>
         \<and> can_sign \<lparr>key = RSAPrivateKey pn\<rparr>
         \<and> rsa_e (public_numbers \<lparr>key = RSAPrivateKey pn\<rparr>) = 65537
         \<and> int (rsakey_size \<lparr>key = RSAPrivateKey pn\<rparr>) = bits
         \<and> int (get_bits \<lparr>key = RSAPrivateKey pn\<rparr>) = bits
         \<and> generate prov io bits progress_func = generate prov io bits other_func"
proof -
  from assms have "rsa_e (priv_public_numbers pn) = 65537"
    and "int (key_size (RSAPrivateKey pn)) = bits"
    unfolding honours_generate_contract_def by blast+
  with assms(2) show ?thesis
    by (simp add: generate_def RSAKey_def RSAKey_init_def can_sign_def public_numbers_def
          rsakey_size_def get_bits_def)
qed

text \<open>The example provider generates its 20-bit key.\<close>

theorem generate_result_witness:
  "honours_generate_contract example_provider
   \<and> generate_private_key example_provider 65537 20 = Inr example_private_numbers
   \<and> generate example_provider example_io 20 (Some (0::nat))
        = Inr \<lparr>key = RSAPrivateKey example_private_numbers\<rparr>
   \<and> can_sign \<lparr>key = RSAPrivateKey example_private_numbers\<rparr>
   \<and> rsa_e (public_numbers \<lparr>key = RSAPrivateKey example_private_numbers\<rparr>) = 65537
   \<and> int (get_bits \<lparr>key = RSAPrivateKey example_private_numbers\<rparr>) = 20"
proof -
  have g: "generate_private_key example_provider 65537 20 = Inr example_private_numbers"
    by (simp add: example_provider_def)
  from generate_result [OF example_generate_contract g, of example_io "Some (0::nat)" None]
       example_generate_contract g
  show ?thesis
    by blast
qed

end
